theory Spec2Isabelle
  imports Main "HOL-Library.AList"
begin

section \<open>JavaScript values\<close>

text \<open>
  The values that flow through the dispatcher are JSON values: tool-call arguments, the
  parsed envelopes of the adapters, the merged response. \<open>JUndefined\<close> is the value of a
  missing property. A number is kept as its decimal rendering, the string that
  \<^verbatim>\<open>String(n)\<close> gives (\<^verbatim>\<open>"0"\<close> for both zeros, \<^verbatim>\<open>"NaN"\<close>), which is all the
  code ever asks of a number: its truthiness and its rendering in a template string.
  An object is an association list read with \<open>map_of\<close>.
\<close>

datatype json =
    JUndefined
  | JNull
  | JBool bool
  | JNum string
  | JStr string
  | JArr "json list"
  | JObj "(string \<times> json) list"

text \<open>\<^verbatim>\<open>Array.prototype.join\<close> on strings already rendered.\<close>

fun join :: "string \<Rightarrow> string list \<Rightarrow> string" where
  "join sep [] = []"
| "join sep [x] = x"
| "join sep (x # y # ys) = x @ sep @ join sep (y # ys)"

text \<open>
  \<^verbatim>\<open>String(v)\<close>, which is also what a template literal \<^verbatim>\<open>`${v}`\<close> inserts. An array
  renders its elements joined by commas, with \<^verbatim>\<open>null\<close> and \<^verbatim>\<open>undefined\<close> elements
  rendered empty; a plain object renders as \<^verbatim>\<open>[object Object]\<close>.
\<close>

fun js_String :: "json \<Rightarrow> string" where
  "js_String JUndefined = ''undefined''"
| "js_String JNull = ''null''"
| "js_String (JBool b) = (if b then ''true'' else ''false'')"
| "js_String (JNum s) = s"
| "js_String (JStr s) = s"
| "js_String (JArr xs) =
     join '','' (map (\<lambda>x. if x = JNull \<or> x = JUndefined then [] else js_String x) xs)"
| "js_String (JObj kvs) = ''[object Object]''"

text \<open>Truthiness: \<^verbatim>\<open>undefined\<close>, \<^verbatim>\<open>null\<close>, \<^verbatim>\<open>false\<close>, zero, \<^verbatim>\<open>NaN\<close> and \<^verbatim>\<open>""\<close> are falsy.\<close>

fun truthy :: "json \<Rightarrow> bool" where
  "truthy JUndefined = False"
| "truthy JNull = False"
| "truthy (JBool b) = b"
| "truthy (JNum s) = (s \<noteq> ''0'' \<and> s \<noteq> ''NaN'')"
| "truthy (JStr s) = (s \<noteq> [])"
| "truthy (JArr xs) = True"
| "truthy (JObj kvs) = True"

text \<open>
  A thrown value: an \<^verbatim>\<open>Error\<close> object with its \<^verbatim>\<open>name\<close> and \<^verbatim>\<open>message\<close>, or any
  other value.
\<close>

datatype thrown = ErrorObject string string | Thrown json

text \<open>\<^verbatim>\<open>error instanceof Error ? error.message : String(error)\<close> (financial-search.ts, line 146).\<close>

fun caught_message :: "thrown \<Rightarrow> string" where
  "caught_message (ErrorObject n m) = m"
| "caught_message (Thrown v) = js_String v"

text \<open>
  \<^verbatim>\<open>`${error}`\<close> (line 108): \<^verbatim>\<open>Error.prototype.toString\<close> gives the name, the
  message, or both separated by a colon.
\<close>

fun thrown_String :: "thrown \<Rightarrow> string" where
  "thrown_String (ErrorObject n m) =
     (if n = [] then m else if m = [] then n else n @ '': '' @ m)"
| "thrown_String (Thrown v) = js_String v"

text \<open>Reading the own property \<open>k\<close> of an object literal; a missing one is \<^verbatim>\<open>undefined\<close>.\<close>

definition field :: "(string \<times> json) list \<Rightarrow> string \<Rightarrow> json" where
  "field kvs k = (case map_of kvs k of None \<Rightarrow> JUndefined | Some v \<Rightarrow> v)"

text \<open>
  \<^verbatim>\<open>v.k\<close> on any value, for the property names the dispatcher reads (\<^verbatim>\<open>data\<close>,
  \<^verbatim>\<open>sourceUrls\<close>): \<^verbatim>\<open>null\<close> and \<^verbatim>\<open>undefined\<close> throw a TypeError, whose message
  \<open>msg\<close> the engine chooses; a primitive or an array has no such property.
\<close>

fun getProp :: "string \<Rightarrow> json \<Rightarrow> string \<Rightarrow> thrown + json" where
  "getProp msg JUndefined k = Inl (ErrorObject ''TypeError'' msg)"
| "getProp msg JNull k = Inl (ErrorObject ''TypeError'' msg)"
| "getProp msg (JObj kvs) k = Inr (field kvs k)"
| "getProp msg v k = Inr JUndefined"

text \<open>
  \<^verbatim>\<open>Array.prototype.flatMap\<close>: an array returned by the callback is spliced in, any
  other value is appended as it is.
\<close>

fun spliced :: "json \<Rightarrow> json list" where
  "spliced (JArr ys) = ys"
| "spliced v = [v]"

definition flatMap :: "('a \<Rightarrow> json) \<Rightarrow> 'a list \<Rightarrow> json list" where
  "flatMap f xs = concat (map (\<lambda>x. spliced (f x)) xs)"

section \<open>The result envelope\<close>

text \<open>
  Modelled from the spec: \<^verbatim>\<open>formatToolResult\<close> of \<^verbatim>\<open>src/tools/types.ts\<close>, which is
  not among the sources. The spec gives the envelope returned by every adapter and by the
  aggregator as \<^verbatim>\<open>{ data: <payload>, sourceUrls: string[] }\<close>, serialised as a JSON string
  at the adapter boundary. The model builds the envelope and leaves it unserialised.
\<close>

definition formatToolResult :: "json \<Rightarrow> json list \<Rightarrow> json" where
  "formatToolResult d urls = JObj [(''data'', d), (''sourceUrls'', JArr urls)]"

section \<open>fundamentals.ts\<close>

text \<open>\<^verbatim>\<open>mapPeriod\<close> (lines 20 to 24), on strings as in the source.\<close>

definition mapPeriod :: "string \<Rightarrow> string" where
  "mapPeriod period =
     (if period = ''quarterly'' then ''quarter''
      else if period = ''annual'' then ''annual''
      else ''annual'')"

text \<open>The values of \<^verbatim>\<open>z.enum(['annual', 'quarterly', 'ttm'])\<close> (line 11).\<close>

definition period_enum :: "string list" where
  "period_enum = [''annual'', ''quarterly'', ''ttm'']"

text \<open>The input of the statement adapters, after schema validation (lines 6 to 17).\<close>

record FinancialStatementsInput =
  ticker :: string
  period :: string
  limit :: json

text \<open>What \<^verbatim>\<open>callApi\<close> resolves to: the payload and the request URL.\<close>

record ApiResponse =
  api_data :: json
  api_url :: string

text \<open>
  \<^verbatim>\<open>callApi\<close> (\<^verbatim>\<open>./api.js\<close>) is the HTTP client, outside this model: a parameter that
  maps a path and the query parameters to a rejection or a response.
\<close>

type_synonym api = "string \<Rightarrow> (string \<times> json) list \<Rightarrow> thrown + ApiResponse"

definition statement_params :: "FinancialStatementsInput \<Rightarrow> string \<Rightarrow> (string \<times> json) list" where
  "statement_params input periodParam =
     [(''symbol'', JStr (ticker input)), (''period'', JStr periodParam), (''limit'', limit input)]"

text \<open>
  The three requests that \<^verbatim>\<open>getAllFinancialStatements\<close> builds inside
  \<^verbatim>\<open>Promise.all([...])\<close> (lines 73 to 78), in the order of the array. All three are
  issued before any is awaited.
\<close>

definition allStatements_calls ::
  "FinancialStatementsInput \<Rightarrow> (string \<times> (string \<times> json) list) list" where
  "allStatements_calls input =
     (let periodParam = mapPeriod (period input) in
      [(''/income-statement'', statement_params input periodParam),
       (''/balance-sheet-statement'', statement_params input periodParam),
       (''/cash-flow-statement'', statement_params input periodParam)])"

text \<open>The rejection reasons among settled calls, in call order.\<close>

fun rejections :: "(thrown + 'a) list \<Rightarrow> thrown list" where
  "rejections [] = []"
| "rejections (Inl e # rs) = e # rejections rs"
| "rejections (Inr v # rs) = rejections rs"

text \<open>
  \<^verbatim>\<open>getAllFinancialStatements\<close> (lines 68 to 85). The result pairs the requests issued
  with the outcome. \<^verbatim>\<open>Promise.all\<close> rejects with the reason of whichever call rejects
  first in time, which the source does not determine: the model returns the reasons of
  all rejected calls, the thrown one being among them.
\<close>

definition getAllFinancialStatements ::
  "api \<Rightarrow> FinancialStatementsInput \<Rightarrow>
     (string \<times> (string \<times> json) list) list \<times> (thrown list + json)" where
  "getAllFinancialStatements callApi input =
     (let calls = allStatements_calls input;
          settled = map (\<lambda>(path, params). callApi path params) calls
      in (calls,
          case settled of
            [Inr income, Inr balance, Inr cashflow] \<Rightarrow>
              Inr (formatToolResult
                     (JObj [(''income_statements'', api_data income),
                            (''balance_sheets'', api_data balance),
                            (''cash_flow_statements'', api_data cashflow)])
                     [JStr (api_url income)])
          | _ \<Rightarrow> Inl (rejections settled)))"

section \<open>financial-search.ts\<close>

text \<open>
  A tool call selected by the language model: \<^verbatim>\<open>tc.name\<close> and \<^verbatim>\<open>tc.args\<close>, the
  latter a \<^verbatim>\<open>Record<string, any>\<close>. The fields carry a prefix since the tool and the
  result have a name and arguments too.
\<close>

record ToolCall =
  tc_name :: string
  tc_args :: "(string \<times> json) list"

text \<open>
  A registered tool: its \<^verbatim>\<open>name\<close> and its \<^verbatim>\<open>invoke\<close>, which validates the arguments,
  runs the adapter and resolves to a value or rejects.
\<close>

record StructuredTool =
  name :: string
  invoke :: "(string \<times> json) list \<Rightarrow> thrown + json"

text \<open>
  The model's answer, an \<^verbatim>\<open>AIMessage\<close> as the source casts it; \<^verbatim>\<open>tool_calls\<close> may be
  missing.
\<close>

record AIMessage =
  tool_calls :: "ToolCall list option"

text \<open>
  What the dispatcher takes from outside \<^verbatim>\<open>financial-search.ts\<close>:
  \<^item> \<open>FINANCE_TOOLS\<close> (lines 21 to 42): the twenty adapters, most of them defined in files
    that are not among the sources;
  \<^item> \<open>callLlm\<close>: the decision service, which resolves to a message or rejects;
  \<^item> \<open>JSON_parse\<close>: a value, or the message of the SyntaxError thrown;
  \<open>JSON_stringify\<close>: a string, or \<^verbatim>\<open>undefined\<close> (as for \<^verbatim>\<open>undefined\<close> itself);
  \<^item> \<open>TypeError_message\<close>: the engine's message when a property of \<^verbatim>\<open>null\<close> or
    \<^verbatim>\<open>undefined\<close> is read.
  The \<^verbatim>\<open>console.log\<close> lines are left out.
\<close>

record env =
  FINANCE_TOOLS :: "StructuredTool list"
  callLlm :: "string \<Rightarrow> thrown + AIMessage"
  JSON_parse :: "string \<Rightarrow> string + json"
  JSON_stringify :: "json \<Rightarrow> string option"
  TypeError_message :: string

text \<open>
  \<^verbatim>\<open>new Map(FINANCE_TOOLS.map(t => [t.name, t]))\<close> (line 44): of two tools with one
  name the later one stays.
\<close>

definition FINANCE_TOOL_MAP :: "env \<Rightarrow> string \<Rightarrow> StructuredTool option" where
  "FINANCE_TOOL_MAP env = map_of (rev (map (\<lambda>t. (name t, t)) (FINANCE_TOOLS env)))"

text \<open>One entry of \<^verbatim>\<open>results\<close> (lines 132 to 138 and 141 to 147).\<close>

record ExecutionResult =
  tool :: string
  args :: "(string \<times> json) list"
  data :: json
  sourceUrls :: json
  error :: "string option"

text \<open>
  Lines 129 to 136: the raw result is rendered unless it is a string already, parsed, and
  its \<^verbatim>\<open>data\<close> and \<^verbatim>\<open>sourceUrls || []\<close> are read. \<^verbatim>\<open>resultStr.substring\<close> on
  \<^verbatim>\<open>undefined\<close> and \<^verbatim>\<open>parsed.data\<close> on \<^verbatim>\<open>null\<close> throw.
\<close>

definition resultStr_of :: "env \<Rightarrow> json \<Rightarrow> string option" where
  "resultStr_of env rawResult =
     (case rawResult of JStr s \<Rightarrow> Some s | v \<Rightarrow> JSON_stringify env v)"

definition parseEnvelope :: "env \<Rightarrow> json \<Rightarrow> thrown + json \<times> json" where
  "parseEnvelope env rawResult =
     (case resultStr_of env rawResult of
        None \<Rightarrow> Inl (ErrorObject ''TypeError'' (TypeError_message env))
      | Some resultStr \<Rightarrow>
          (case JSON_parse env resultStr of
             Inl m \<Rightarrow> Inl (ErrorObject ''SyntaxError'' m)
           | Inr parsed \<Rightarrow>
               (case getProp (TypeError_message env) parsed ''data'' of
                  Inl e \<Rightarrow> Inl e
                | Inr d \<Rightarrow>
                    (case getProp (TypeError_message env) parsed ''sourceUrls'' of
                       Inl e \<Rightarrow> Inl e
                     | Inr u \<Rightarrow> Inr (d, if truthy u then u else JArr [])))))"

text \<open>\<^verbatim>\<open>`Tool '${tc.name}' not found`\<close> (line 126).\<close>

definition not_found_message :: "string \<Rightarrow> string" where
  "not_found_message n = ''Tool '' @ [CHR 0x27] @ n @ [CHR 0x27] @ '' not found''"

text \<open>
  The body of the \<^verbatim>\<open>try\<close> (lines 124 to 138): what it returns or throws, and the tool
  calls handed to an adapter on the way, none when the lookup fails.
\<close>

definition tryInvoke :: "env \<Rightarrow> ToolCall \<Rightarrow> (thrown + json \<times> json) \<times> ToolCall list" where
  "tryInvoke env tc =
     (case FINANCE_TOOL_MAP env (tc_name tc) of
        None \<Rightarrow> (Inl (ErrorObject ''Error'' (not_found_message (tc_name tc))), [])
      | Some t \<Rightarrow>
          (case invoke t (tc_args tc) of
             Inl e \<Rightarrow> (Inl e, [tc])
           | Inr rawResult \<Rightarrow> (parseEnvelope env rawResult, [tc])))"

text \<open>The callback of \<^verbatim>\<open>toolCalls.map\<close> (lines 121 to 149), with the adapters it invoked.\<close>

definition executeToolCall :: "env \<Rightarrow> ToolCall \<Rightarrow> ExecutionResult \<times> ToolCall list" where
  "executeToolCall env tc =
     (case tryInvoke env tc of
        (Inr (d, u), invoked) \<Rightarrow>
          (\<lparr>tool = tc_name tc, args = tc_args tc, data = d, sourceUrls = u, error = None\<rparr>,
           invoked)
      | (Inl e, invoked) \<Rightarrow>
          (\<lparr>tool = tc_name tc, args = tc_args tc, data = JNull, sourceUrls = JArr [],
            error = Some (caught_message e)\<rparr>,
           invoked))"

text \<open>
  \<^verbatim>\<open>Promise.all(toolCalls.map(...))\<close> (line 120): the results in the order of the tool
  calls. Each adapter is invoked in the synchronous part of its callback, so the
  invocations start in that order too.
\<close>

definition executeAll :: "env \<Rightarrow> ToolCall list \<Rightarrow> ExecutionResult list \<times> ToolCall list" where
  "executeAll env toolCalls =
     (map (\<lambda>tc. fst (executeToolCall env tc)) toolCalls,
      concat (map (\<lambda>tc. snd (executeToolCall env tc)) toolCalls))"

text \<open>Lines 160 and 161: the key under which a result is merged.\<close>

definition key_of :: "ExecutionResult \<Rightarrow> string" where
  "key_of result =
     (let t = field (args result) ''ticker''
      in if truthy t then tool result @ ''_'' @ js_String t else tool result)"

text \<open>
  The loop of lines 159 to 163, from an object that already holds \<open>combinedData\<close>. An
  assignment replaces the value of a key that is there and adds the key otherwise; every
  key is taken as an own property (the accessor \<^verbatim>\<open>__proto__\<close> is not modelled).
\<close>

fun mergeData :: "ExecutionResult list \<Rightarrow> (string \<times> json) list \<Rightarrow> (string \<times> json) list" where
  "mergeData [] combinedData = combinedData"
| "mergeData (result # rest) combinedData =
     mergeData rest (AList.update (key_of result) (data result) combinedData)"

text \<open>One entry of \<^verbatim>\<open>_errors\<close> (lines 166 to 170).\<close>

definition error_entry :: "ExecutionResult \<Rightarrow> json" where
  "error_entry r =
     JObj [(''tool'', JStr (tool r)), (''args'', JObj (args r)),
           (''error'', case error r of None \<Rightarrow> JNull | Some m \<Rightarrow> JStr m)]"

text \<open>Lines 152 to 171: \<^verbatim>\<open>combinedData\<close> as it is handed to \<^verbatim>\<open>formatToolResult\<close>.\<close>

definition combinedData_of :: "ExecutionResult list \<Rightarrow> (string \<times> json) list" where
  "combinedData_of results =
     (let successfulResults = filter (\<lambda>r. error r = None) results;
          failedResults = filter (\<lambda>r. error r \<noteq> None) results;
          combinedData = mergeData successfulResults []
      in if length failedResults > 0
         then AList.update ''_errors'' (JArr (map error_entry failedResults)) combinedData
         else combinedData)"

text \<open>Line 156.\<close>

definition allUrls_of :: "ExecutionResult list \<Rightarrow> json list" where
  "allUrls_of results = flatMap sourceUrls results"

text \<open>
  The \<^verbatim>\<open>func\<close> of \<^verbatim>\<open>createFinancialSearch\<close> (lines 91 to 175): the response, and the
  tool calls handed to an adapter while it was computed.
\<close>

definition financial_search :: "env \<Rightarrow> string \<Rightarrow> json \<times> ToolCall list" where
  "financial_search env query =
     (case callLlm env query of
        Inl e \<Rightarrow>
          (formatToolResult
             (JObj [(''error'', JStr (''LLM call failed: '' @ thrown_String e))]) [], [])
      | Inr response \<Rightarrow>
          (case tool_calls response of
             None \<Rightarrow>
               (formatToolResult (JObj [(''error'', JStr ''No tools selected for query'')]) [],
                [])
           | Some toolCalls \<Rightarrow>
               if length toolCalls = 0
               then (formatToolResult
                       (JObj [(''error'', JStr ''No tools selected for query'')]) [], [])
               else (let (results, invoked) = executeAll env toolCalls
                     in (formatToolResult (JObj (combinedData_of results)) (allUrls_of results),
                         invoked))))"

section \<open>A concrete environment\<close>

text \<open>
  A small registry and runtime on which the properties below are evaluated. The adapter
  \<^verbatim>\<open>get_prices\<close> rejects a call without a string ticker and otherwise answers with a
  text that stands for the serialised envelope of that ticker; \<^verbatim>\<open>get_news\<close> answers with
  an envelope that has no \<^verbatim>\<open>sourceUrls\<close>. The parser reads these texts.
\<close>

definition example_envelope :: "string \<Rightarrow> json" where
  "example_envelope t =
     JObj [(''data'', JObj [(''prices'', JStr t)]), (''sourceUrls'', JArr [JStr (''https://api/'' @ t)])]"

definition example_get_prices :: StructuredTool where
  "example_get_prices =
     \<lparr>name = ''get_prices'',
      invoke = (\<lambda>a. case field a ''ticker'' of
                       JStr t \<Rightarrow> Inr (JStr (''prices:'' @ t))
                     | _ \<Rightarrow> Inl (ErrorObject ''Error'' ''ticker: Required''))\<rparr>"

definition example_get_news :: StructuredTool where
  "example_get_news = \<lparr>name = ''get_news'', invoke = (\<lambda>a. Inr (JStr ''news''))\<rparr>"

definition example_parse :: "string \<Rightarrow> string + json" where
  "example_parse s =
     (if take 7 s = ''prices:'' then Inr (example_envelope (drop 7 s))
      else if s = ''news'' then Inr (JObj [(''data'', JArr [])])
      else if s = ''null'' then Inr JNull
      else Inl ''Unexpected token'')"

definition example_calls :: "ToolCall list" where
  "example_calls =
     [\<lparr>tc_name = ''get_prices'', tc_args = [(''ticker'', JStr ''AAPL'')]\<rparr>,
      \<lparr>tc_name = ''get_weather'', tc_args = []\<rparr>,
      \<lparr>tc_name = ''get_prices'', tc_args = [(''ticker'', JStr ''TSLA'')]\<rparr>,
      \<lparr>tc_name = ''get_news'', tc_args = [(''ticker'', JStr [])]\<rparr>]"

definition example_env :: env where
  "example_env =
     \<lparr>FINANCE_TOOLS = [example_get_prices, example_get_news],
      callLlm = (\<lambda>q. if q = [] then Inl (ErrorObject ''Error'' ''timeout'')
                      else if q = ''hello'' then Inr \<lparr>tool_calls = Some []\<rparr>
                      else Inr \<lparr>tool_calls = Some example_calls\<rparr>),
      JSON_parse = example_parse,
      JSON_stringify = (\<lambda>v. if v = JUndefined then None else Some ''null''),
      TypeError_message = ''Cannot read properties of null''\<rparr>"

text \<open>
  A second environment, whose only adapter \<^verbatim>\<open>get_filings\<close> resolves to an envelope
  object, not to a string, so that line 129 renders it with \<^verbatim>\<open>JSON.stringify\<close>. The data
  of the envelope is the \<^verbatim>\<open>limit\<close> argument of the call. The renderer writes such an
  envelope as a text that stands for its serialisation, and the parser reads it back.
\<close>

definition example_filings_envelope :: "json \<Rightarrow> json" where
  "example_filings_envelope d =
     JObj [(''data'', d), (''sourceUrls'', JArr [JStr ''https://api/filings''])]"

definition example_get_filings :: StructuredTool where
  "example_get_filings =
     \<lparr>name = ''get_filings'',
      invoke = (\<lambda>a. Inr (example_filings_envelope (field a ''limit'')))\<rparr>"

definition example_stringify :: "json \<Rightarrow> string option" where
  "example_stringify v =
     (case v of
        JUndefined \<Rightarrow> None
      | JObj kvs \<Rightarrow>
          (case field kvs ''data'' of
             JNum n \<Rightarrow> Some (''filings:'' @ n)
           | _ \<Rightarrow> Some ''null'')
      | _ \<Rightarrow> Some ''null'')"

definition example_parse_filings :: "string \<Rightarrow> string + json" where
  "example_parse_filings s =
     (if take 8 s = ''filings:'' then Inr (example_filings_envelope (JNum (drop 8 s)))
      else example_parse s)"

definition example_filings_env :: env where
  "example_filings_env =
     \<lparr>FINANCE_TOOLS = [example_get_filings],
      callLlm = (\<lambda>q. Inr \<lparr>tool_calls = None\<rparr>),
      JSON_parse = example_parse_filings,
      JSON_stringify = example_stringify,
      TypeError_message = ''Cannot read properties of null''\<rparr>"


text \<open>An upstream API that answers every path with the path as payload and as URL.\<close>

definition example_api :: api where
  "example_api path params = Inr \<lparr>api_data = JStr path, api_url = ''https://api'' @ path\<rparr>"

definition example_input :: FinancialStatementsInput where
  "example_input = \<lparr>ticker = ''AAPL'', period = ''ttm'', limit = JNum ''10''\<rparr>"

section \<open>Properties\<close>

subsection \<open>Auxiliary facts\<close>

lemma map_of_mergeData:
  "map_of (mergeData rs cd) k =
     (case filter (\<lambda>r. key_of r = k) rs of
        [] \<Rightarrow> map_of cd k
      | x # xs \<Rightarrow> Some (data (last (x # xs))))"
proof (induction rs arbitrary: cd)
  case Nil
  show ?case by simp
next
  case (Cons r rs)
  show ?case
    by (simp add: Cons.IH update_conv' split: list.splits)
qed

lemma keys_mergeData: "fst ` set (mergeData rs cd) = fst ` set cd \<union> key_of ` set rs"
  by (induction rs arbitrary: cd) (auto simp: dom_update)







subsection \<open>The concrete environment, evaluated\<close>

lemma example_map_prices: "FINANCE_TOOL_MAP example_env ''get_prices'' = Some example_get_prices"
  by (simp add: FINANCE_TOOL_MAP_def example_env_def example_get_prices_def example_get_news_def)

lemma example_map_news: "FINANCE_TOOL_MAP example_env ''get_news'' = Some example_get_news"
  by (simp add: FINANCE_TOOL_MAP_def example_env_def example_get_prices_def example_get_news_def)

lemma example_map_weather: "FINANCE_TOOL_MAP example_env ''get_weather'' = None"
  by (simp add: FINANCE_TOOL_MAP_def example_env_def example_get_prices_def example_get_news_def)

lemma example_env_sel:
  "JSON_parse example_env = example_parse"
  "TypeError_message example_env = ''Cannot read properties of null''"
  by (simp_all add: example_env_def)

lemma example_executeAll:
  "executeAll example_env example_calls =
    ([\<lparr>tool = ''get_prices'', args = [(''ticker'', JStr ''AAPL'')],
       data = JObj [(''prices'', JStr ''AAPL'')],
       sourceUrls = JArr [JStr ''https://api/AAPL''], error = None\<rparr>,
      \<lparr>tool = ''get_weather'', args = [], data = JNull, sourceUrls = JArr [],
       error = Some (not_found_message ''get_weather'')\<rparr>,
      \<lparr>tool = ''get_prices'', args = [(''ticker'', JStr ''TSLA'')],
       data = JObj [(''prices'', JStr ''TSLA'')],
       sourceUrls = JArr [JStr ''https://api/TSLA''], error = None\<rparr>,
      \<lparr>tool = ''get_news'', args = [(''ticker'', JStr [])], data = JArr [],
       sourceUrls = JArr [], error = None\<rparr>],
     [\<lparr>tc_name = ''get_prices'', tc_args = [(''ticker'', JStr ''AAPL'')]\<rparr>,
      \<lparr>tc_name = ''get_prices'', tc_args = [(''ticker'', JStr ''TSLA'')]\<rparr>,
      \<lparr>tc_name = ''get_news'', tc_args = [(''ticker'', JStr [])]\<rparr>])"
  by (simp add: executeAll_def example_calls_def executeToolCall_def tryInvoke_def
      example_map_prices example_map_news example_map_weather parseEnvelope_def
      resultStr_of_def example_get_prices_def example_get_news_def field_def
      example_env_sel example_parse_def example_envelope_def)

lemma example_map_filings:
  "FINANCE_TOOL_MAP example_filings_env ''get_filings'' = Some example_get_filings"
  by (simp add: FINANCE_TOOL_MAP_def example_filings_env_def example_get_filings_def)

lemma example_filings_env_sel:
  "JSON_parse example_filings_env = example_parse_filings"
  "JSON_stringify example_filings_env = example_stringify"
  "TypeError_message example_filings_env = ''Cannot read properties of null''"
  by (simp_all add: example_filings_env_def)


subsection \<open>The executor, one tool call at a time\<close>

text \<open>
  C1. A tool call whose name is registered and whose adapter resolves, to a string or to
  a value that \<^verbatim>\<open>JSON.stringify\<close> renders, such that the text parses to an envelope
  object, gives a result with \<^verbatim>\<open>error: null\<close> whose \<^verbatim>\<open>data\<close> is the \<^verbatim>\<open>data\<close> field of
  the parsed envelope; the result carries the call's name and arguments.
\<close>

theorem executor_success:
  assumes "FINANCE_TOOL_MAP env (tc_name tc) = Some t"
    and "invoke t (tc_args tc) = Inr rawResult"
    and "rawResult = JStr resultStr \<or>
         (\<forall>s. rawResult \<noteq> JStr s) \<and> JSON_stringify env rawResult = Some resultStr"
    and "JSON_parse env resultStr = Inr (JObj envelope)"
  shows "error (fst (executeToolCall env tc)) = None \<and>
         data (fst (executeToolCall env tc)) = field envelope ''data'' \<and>
         tool (fst (executeToolCall env tc)) = tc_name tc \<and>
         args (fst (executeToolCall env tc)) = tc_args tc"
proof -
  from assms(3) have "resultStr_of env rawResult = Some resultStr"
    by (cases rawResult) (auto simp: resultStr_of_def)
  with assms(1,2,4) show ?thesis
    by (simp add: executeToolCall_def tryInvoke_def parseEnvelope_def)
qed

theorem executor_success_witness:
  "FINANCE_TOOL_MAP example_env ''get_prices'' = Some example_get_prices \<and>
   invoke example_get_prices [(''ticker'', JStr ''AAPL'')] = Inr (JStr ''prices:AAPL'') \<and>
   JSON_parse example_env ''prices:AAPL'' = Inr (example_envelope ''AAPL'') \<and>
   error (fst (executeToolCall example_env
       \<lparr>tc_name = ''get_prices'', tc_args = [(''ticker'', JStr ''AAPL'')]\<rparr>)) = None \<and>
   data (fst (executeToolCall example_env
       \<lparr>tc_name = ''get_prices'', tc_args = [(''ticker'', JStr ''AAPL'')]\<rparr>)) =
     JObj [(''prices'', JStr ''AAPL'')] \<and>
   FINANCE_TOOL_MAP example_filings_env ''get_filings'' = Some example_get_filings \<and>
   invoke example_get_filings [(''limit'', JNum ''5'')] =
     Inr (JObj [(''data'', JNum ''5''), (''sourceUrls'', JArr [JStr ''https://api/filings''])]) \<and>
   JSON_stringify example_filings_env
     (JObj [(''data'', JNum ''5''), (''sourceUrls'', JArr [JStr ''https://api/filings''])]) =
     Some ''filings:5'' \<and>
   JSON_parse example_filings_env ''filings:5'' =
     Inr (JObj [(''data'', JNum ''5''), (''sourceUrls'', JArr [JStr ''https://api/filings''])]) \<and>
   error (fst (executeToolCall example_filings_env
       \<lparr>tc_name = ''get_filings'', tc_args = [(''limit'', JNum ''5'')]\<rparr>)) = None \<and>
   data (fst (executeToolCall example_filings_env
       \<lparr>tc_name = ''get_filings'', tc_args = [(''limit'', JNum ''5'')]\<rparr>)) = JNum ''5''"
proof -
  let ?tc = "\<lparr>tc_name = ''get_prices'', tc_args = [(''ticker'', JStr ''AAPL'')]\<rparr>"
  have 1: "FINANCE_TOOL_MAP example_env (tc_name ?tc) = Some example_get_prices"
    by (simp add: example_map_prices)
  have 2: "invoke example_get_prices (tc_args ?tc) = Inr (JStr ''prices:AAPL'')"
    by (simp add: example_get_prices_def field_def)
  have 3: "JStr ''prices:AAPL'' = JStr ''prices:AAPL'' \<or>
      (\<forall>s. JStr ''prices:AAPL'' \<noteq> JStr s) \<and>
      JSON_stringify example_env (JStr ''prices:AAPL'') = Some ''prices:AAPL''"
    by simp
  have 4: "JSON_parse example_env ''prices:AAPL'' =
      Inr (JObj [(''data'', JObj [(''prices'', JStr ''AAPL'')]),
                 (''sourceUrls'', JArr [JStr ''https://api/AAPL''])])"
    by (simp add: example_env_sel example_parse_def example_envelope_def)
  let ?fc = "\<lparr>tc_name = ''get_filings'', tc_args = [(''limit'', JNum ''5'')]\<rparr>"
  let ?raw = "JObj [(''data'', JNum ''5''), (''sourceUrls'', JArr [JStr ''https://api/filings''])]"
  have 5: "FINANCE_TOOL_MAP example_filings_env (tc_name ?fc) = Some example_get_filings"
    by (simp add: example_map_filings)
  have 6: "invoke example_get_filings (tc_args ?fc) = Inr ?raw"
    by (simp add: example_get_filings_def example_filings_envelope_def field_def)
  have 7: "JSON_stringify example_filings_env ?raw = Some ''filings:5''"
    by (simp add: example_filings_env_sel example_stringify_def field_def)
  then have 8: "?raw = JStr ''filings:5'' \<or>
      (\<forall>s. ?raw \<noteq> JStr s) \<and> JSON_stringify example_filings_env ?raw = Some ''filings:5''"
    by simp
  have 9: "JSON_parse example_filings_env ''filings:5'' = Inr ?raw"
    by (simp add: example_filings_env_sel example_parse_filings_def example_filings_envelope_def)
  from executor_success [OF 1 2 3 4] executor_success [OF 5 6 8 9] 1 2 4 5 6 7 9
  show ?thesis
    by (simp add: field_def example_envelope_def)
qed

text \<open>
  C2. A tool call whose name is not in the registry gives a result with \<^verbatim>\<open>error\<close> set
  (to the not-found message) and \<^verbatim>\<open>data: null\<close>, and no adapter is invoked for it. In
  any batch that contains it, the calls before and after it get the results, and cause the
  adapter invocations, that they would get without it.
\<close>

theorem unknown_tool_isolated:
  assumes "FINANCE_TOOL_MAP env (tc_name tc) = None"
  shows "error (fst (executeToolCall env tc)) = Some (not_found_message (tc_name tc)) \<and>
         data (fst (executeToolCall env tc)) = JNull \<and>
         snd (executeToolCall env tc) = [] \<and>
         fst (executeAll env (before @ tc # after)) =
           fst (executeAll env before) @ fst (executeToolCall env tc) #
           fst (executeAll env after) \<and>
         snd (executeAll env (before @ tc # after)) =
           snd (executeAll env before) @ snd (executeAll env after)"
  using assms by (simp add: executeToolCall_def tryInvoke_def executeAll_def)

theorem unknown_tool_isolated_witness:
  "FINANCE_TOOL_MAP example_env ''get_weather'' = None \<and>
   map error (fst (executeAll example_env example_calls)) =
     [None, Some (not_found_message ''get_weather''), None, None] \<and>
   map data (fst (executeAll example_env example_calls)) =
     [JObj [(''prices'', JStr ''AAPL'')], JNull, JObj [(''prices'', JStr ''TSLA'')], JArr []] \<and>
   snd (executeToolCall example_env \<lparr>tc_name = ''get_weather'', tc_args = []\<rparr>) = []"
proof -
  have h: "FINANCE_TOOL_MAP example_env (tc_name \<lparr>tc_name = ''get_weather'', tc_args = []\<rparr>) = None"
    by (simp add: example_map_weather)
  from unknown_tool_isolated [OF h] show ?thesis
    by (simp add: example_executeAll example_map_weather)
qed

text \<open>
  C9. When the adapter resolves and the parsed envelope has no \<^verbatim>\<open>sourceUrls\<close>, or a
  falsy one, the result is a success whose \<^verbatim>\<open>sourceUrls\<close> is the empty list, and it adds
  nothing to the concatenated URLs of any batch it is part of.
\<close>

theorem missing_sourceUrls_default:
  assumes "FINANCE_TOOL_MAP env (tc_name tc) = Some t"
    and "invoke t (tc_args tc) = Inr rawResult"
    and "resultStr_of env rawResult = Some resultStr"
    and "JSON_parse env resultStr = Inr (JObj envelope)"
    and "\<not> truthy (field envelope ''sourceUrls'')"
  shows "fst (executeToolCall env tc) =
           \<lparr>tool = tc_name tc, args = tc_args tc, data = field envelope ''data'',
            sourceUrls = JArr [], error = None\<rparr> \<and>
         allUrls_of (rs @ fst (executeToolCall env tc) # rs') = allUrls_of rs @ allUrls_of rs'"
  using assms
  by (simp add: executeToolCall_def tryInvoke_def parseEnvelope_def allUrls_of_def flatMap_def)

theorem missing_sourceUrls_default_witness:
  "JSON_parse example_env ''news'' = Inr (JObj [(''data'', JArr [])]) \<and>
   \<not> truthy (field [(''data'', JArr [])] ''sourceUrls'') \<and>
   fst (executeToolCall example_env \<lparr>tc_name = ''get_news'', tc_args = [(''ticker'', JStr [])]\<rparr>) =
     \<lparr>tool = ''get_news'', args = [(''ticker'', JStr [])], data = JArr [],
      sourceUrls = JArr [], error = None\<rparr>"
proof -
  let ?tc = "\<lparr>tc_name = ''get_news'', tc_args = [(''ticker'', JStr [])]\<rparr>"
  have 1: "FINANCE_TOOL_MAP example_env (tc_name ?tc) = Some example_get_news"
    by (simp add: example_map_news)
  have 2: "invoke example_get_news (tc_args ?tc) = Inr (JStr ''news'')"
    by (simp add: example_get_news_def)
  have 3: "resultStr_of example_env (JStr ''news'') = Some ''news''"
    by (simp add: resultStr_of_def)
  have 4: "JSON_parse example_env ''news'' = Inr (JObj [(''data'', JArr [])])"
    by (simp add: example_env_sel example_parse_def)
  have 5: "\<not> truthy (field [(''data'', JArr [])] ''sourceUrls'')"
    by (simp add: field_def)
  from missing_sourceUrls_default [OF 1 2 3 4 5] 4 5 show ?thesis
    by (simp add: field_def)
qed

subsection \<open>Merging the results\<close>

text \<open>
  C3, as amended. The key of a result is the tool name alone when the \<^verbatim>\<open>ticker\<close>
  argument is missing or falsy, and the tool name, an underscore and the rendering of the
  ticker when the \<^verbatim>\<open>ticker\<close> argument is truthy; for a non-empty string ticker that is
  \<^verbatim>\<open>toolName_ticker\<close>. Two results of one tool with different non-empty string tickers,
  or with any truthy tickers that render differently, have different keys. The keys of
  the merged object are the keys of the results merged, and under each key stands the data
  of the last result with that key.
\<close>

theorem key_scheme:
  "(\<not> truthy (field (args r) ''ticker'') \<longrightarrow> key_of r = tool r) \<and>
   (truthy (field (args r) ''ticker'') \<longrightarrow>
      key_of r = tool r @ ''_'' @ js_String (field (args r) ''ticker'')) \<and>
   (map_of (args r) ''ticker'' = None \<longrightarrow> key_of r = tool r) \<and>
   (map_of (args r) ''ticker'' = Some (JStr s) \<and> s \<noteq> [] \<longrightarrow> key_of r = tool r @ ''_'' @ s) \<and>
   (tool r = tool r' \<and> map_of (args r) ''ticker'' = Some (JStr s) \<and>
    map_of (args r') ''ticker'' = Some (JStr s') \<and> s \<noteq> [] \<and> s' \<noteq> [] \<and> s \<noteq> s' \<longrightarrow>
      key_of r \<noteq> key_of r') \<and>
   (tool r = tool r' \<and> truthy (field (args r) ''ticker'') \<and>
    truthy (field (args r') ''ticker'') \<and>
    js_String (field (args r) ''ticker'') \<noteq> js_String (field (args r') ''ticker'') \<longrightarrow>
      key_of r \<noteq> key_of r') \<and>
   fst ` set (mergeData rs []) = key_of ` set rs \<and>
   (r \<in> set rs \<longrightarrow>
      map_of (mergeData rs []) (key_of r) =
        Some (data (last (filter (\<lambda>x. key_of x = key_of r) rs))))"
proof -
  have "map_of (mergeData rs []) (key_of r) =
      Some (data (last (filter (\<lambda>x. key_of x = key_of r) rs)))" if "r \<in> set rs"
  proof -
    from that have "r \<in> set (filter (\<lambda>x. key_of x = key_of r) rs)" by simp
    then obtain x xs where "filter (\<lambda>x. key_of x = key_of r) rs = x # xs"
      by (cases "filter (\<lambda>x. key_of x = key_of r) rs") auto
    then show ?thesis by (simp add: map_of_mergeData)
  qed
  then show ?thesis
    by (auto simp: key_of_def field_def keys_mergeData)
qed

theorem key_scheme_witness:
  "map key_of (filter (\<lambda>r. error r = None) (fst (executeAll example_env example_calls))) =
     [''get_prices_AAPL'', ''get_prices_TSLA'', ''get_news''] \<and>
   key_of \<lparr>tool = ''get_prices'', args = [(''ticker'', JStr ''AAPL'')], data = JNum ''1'',
           sourceUrls = JArr [], error = None\<rparr> \<noteq>
   key_of \<lparr>tool = ''get_prices'', args = [(''ticker'', JStr ''TSLA'')], data = JNum ''2'',
           sourceUrls = JArr [], error = None\<rparr> \<and>
   map_of (mergeData
     [\<lparr>tool = ''get_prices'', args = [(''ticker'', JStr ''AAPL'')], data = JNum ''1'',
       sourceUrls = JArr [], error = None\<rparr>,
      \<lparr>tool = ''get_prices'', args = [(''ticker'', JStr ''AAPL'')], data = JNum ''2'',
       sourceUrls = JArr [], error = None\<rparr>] []) ''get_prices_AAPL'' = Some (JNum ''2'')"
  using key_scheme [of
      "\<lparr>tool = ''get_prices'', args = [(''ticker'', JStr ''AAPL'')], data = JNum ''1'',
        sourceUrls = JArr [], error = None\<rparr>" "''AAPL''"
      "\<lparr>tool = ''get_prices'', args = [(''ticker'', JStr ''TSLA'')], data = JNum ''2'',
        sourceUrls = JArr [], error = None\<rparr>" "''TSLA''"
      "[\<lparr>tool = ''get_prices'', args = [(''ticker'', JStr ''AAPL'')], data = JNum ''1'',
         sourceUrls = JArr [], error = None\<rparr>,
        \<lparr>tool = ''get_prices'', args = [(''ticker'', JStr ''AAPL'')], data = JNum ''2'',
         sourceUrls = JArr [], error = None\<rparr>]"]
  by (simp add: example_executeAll key_of_def field_def)

text \<open>
  C3 as it is written fails where a \<^verbatim>\<open>ticker\<close> argument is present and falsy: the call
  \<^verbatim>\<open>get_news\<close> with \<^verbatim>\<open>{ticker: ""}\<close> succeeds, its result holds the ticker argument,
  and its key is \<^verbatim>\<open>get_news\<close>, not \<^verbatim>\<open>get_news_\<close>.
\<close>

theorem key_present_falsy_counterexample:
  "error (fst (executeToolCall example_env
      \<lparr>tc_name = ''get_news'', tc_args = [(''ticker'', JStr [])]\<rparr>)) = None \<and>
   map_of (args (fst (executeToolCall example_env
      \<lparr>tc_name = ''get_news'', tc_args = [(''ticker'', JStr [])]\<rparr>))) ''ticker'' = Some (JStr []) \<and>
   key_of (fst (executeToolCall example_env
      \<lparr>tc_name = ''get_news'', tc_args = [(''ticker'', JStr [])]\<rparr>)) = ''get_news'' \<and>
   key_of (fst (executeToolCall example_env
      \<lparr>tc_name = ''get_news'', tc_args = [(''ticker'', JStr [])]\<rparr>)) \<noteq> ''get_news'' @ ''_'' @ []"
  by (simp add: executeToolCall_def tryInvoke_def example_map_news parseEnvelope_def
      resultStr_of_def example_get_news_def field_def example_env_sel example_parse_def
      key_of_def)

text \<open>
  C10. Whether there is a ticker is decided by truthiness: a result whose \<^verbatim>\<open>ticker\<close>
  argument is the empty string is keyed by the bare tool name, the key of any result of
  the same tool that has no \<^verbatim>\<open>ticker\<close> argument, and is merged under that name.
\<close>

theorem empty_ticker_bare_key:
  assumes "map_of (args r) ''ticker'' = Some (JStr [])"
  shows "key_of r = tool r \<and>
         (\<forall>r'. tool r' = tool r \<and> map_of (args r') ''ticker'' = None \<longrightarrow>
            key_of r' = key_of r) \<and>
         mergeData [r] [] = [(tool r, data r)]"
  using assms by (simp add: key_of_def field_def)

theorem empty_ticker_bare_key_witness:
  "map_of (args \<lparr>tool = ''get_news'', args = [(''ticker'', JStr [])], data = JArr [],
                 sourceUrls = JArr [], error = None\<rparr>) ''ticker'' = Some (JStr []) \<and>
   key_of \<lparr>tool = ''get_news'', args = [(''ticker'', JStr [])], data = JArr [],
           sourceUrls = JArr [], error = None\<rparr> = ''get_news'' \<and>
   key_of \<lparr>tool = ''get_news'', args = [], data = JArr [],
           sourceUrls = JArr [], error = None\<rparr> = ''get_news''"
proof -
  let ?r = "\<lparr>tool = ''get_news'', args = [(''ticker'', JStr [])], data = JArr [],
             sourceUrls = JArr [], error = None\<rparr>"
  let ?r' = "\<lparr>tool = ''get_news'', args = [], data = JArr [],
              sourceUrls = JArr [], error = None\<rparr>"
  have h: "map_of (args ?r) ''ticker'' = Some (JStr [])" by simp
  have h': "tool ?r' = tool ?r \<and> map_of (args ?r') ''ticker'' = None" by simp
  from empty_ticker_bare_key [OF h] have
    "key_of ?r = tool ?r" and
    "\<forall>r'. tool r' = tool ?r \<and> map_of (args r') ''ticker'' = None \<longrightarrow> key_of r' = key_of ?r"
    by blast+
  with h h' show ?thesis by (metis ExecutionResult.select_convs(1))
qed




subsection \<open>The source URLs\<close>



subsection \<open>The decision call\<close>

text \<open>
  C8. If the decision call throws, the response is the single envelope whose data is
  \<^verbatim>\<open>{error: "LLM call failed: ..."}\<close>, with an empty URL list, and no adapter is invoked.
  If it answers with no tool calls (a missing or an empty list), the response is the
  envelope whose data is \<^verbatim>\<open>{error: "No tools selected for query"}\<close> and nothing else,
  again with an empty URL list and no adapter invoked. The two error texts differ
  whatever was thrown.
\<close>

theorem decision_failure:
  "(callLlm env q = Inl e \<longrightarrow>
      financial_search env q =
        (formatToolResult
           (JObj [(''error'', JStr (''LLM call failed: '' @ thrown_String e))]) [], [])) \<and>
   (callLlm env q = Inr response \<and>
    (tool_calls response = None \<or> tool_calls response = Some []) \<longrightarrow>
      financial_search env q =
        (formatToolResult (JObj [(''error'', JStr ''No tools selected for query'')]) [], [])) \<and>
   ''No tools selected for query'' \<noteq> ''LLM call failed: '' @ thrown_String e"
  by (auto simp: financial_search_def)

theorem decision_failure_witness:
  "callLlm example_env [] = Inl (ErrorObject ''Error'' ''timeout'') \<and>
   financial_search example_env [] =
     (formatToolResult (JObj [(''error'', JStr ''LLM call failed: Error: timeout'')]) [], []) \<and>
   callLlm example_env ''hello'' = Inr \<lparr>tool_calls = Some []\<rparr> \<and>
   financial_search example_env ''hello'' =
     (formatToolResult (JObj [(''error'', JStr ''No tools selected for query'')]) [], [])"
proof -
  have 1: "callLlm example_env [] = Inl (ErrorObject ''Error'' ''timeout'')"
    by (simp add: example_env_def)
  have 2: "callLlm example_env ''hello'' = Inr \<lparr>tool_calls = Some []\<rparr>"
    by (simp add: example_env_def)
  from decision_failure [of example_env "[]" "ErrorObject ''Error'' ''timeout''"]
    decision_failure [of example_env "''hello''" _ "\<lparr>tool_calls = Some []\<rparr>"] 1 2
  show ?thesis by simp
qed

subsection \<open>The statement adapters\<close>

text \<open>
  C4. The period mapping is total: \<^verbatim>\<open>quarterly\<close> gives \<^verbatim>\<open>quarter\<close>, \<^verbatim>\<open>annual\<close> gives
  \<^verbatim>\<open>annual\<close>, \<^verbatim>\<open>ttm\<close> falls back to \<^verbatim>\<open>annual\<close>, and these are the values of the
  mapping along the enumeration; no input at all is left without one of the two upstream
  values.
\<close>

theorem mapPeriod_total:
  "mapPeriod ''quarterly'' = ''quarter'' \<and> mapPeriod ''annual'' = ''annual'' \<and>
   mapPeriod ''ttm'' = ''annual'' \<and>
   map mapPeriod period_enum = [''annual'', ''quarter'', ''annual''] \<and>
   (\<forall>p. mapPeriod p = ''quarter'' \<or> mapPeriod p = ''annual'')"
  by (simp add: mapPeriod_def period_enum_def)

text \<open>
  C5. For every input, \<^verbatim>\<open>getAllFinancialStatements\<close> issues exactly three requests, to
  the income-statement, balance-sheet and cash-flow paths, with the same symbol, mapped
  period and limit. When the three resolve, it returns the envelope of their payloads
  under \<^verbatim>\<open>income_statements\<close>, \<^verbatim>\<open>balance_sheets\<close> and \<^verbatim>\<open>cash_flow_statements\<close>, with
  the URL of the income-statement request as the only source URL.
\<close>

theorem all_statements:
  "fst (getAllFinancialStatements callApi input) =
     [(''/income-statement'',
       [(''symbol'', JStr (ticker input)), (''period'', JStr (mapPeriod (period input))),
        (''limit'', limit input)]),
      (''/balance-sheet-statement'',
       [(''symbol'', JStr (ticker input)), (''period'', JStr (mapPeriod (period input))),
        (''limit'', limit input)]),
      (''/cash-flow-statement'',
       [(''symbol'', JStr (ticker input)), (''period'', JStr (mapPeriod (period input))),
        (''limit'', limit input)])] \<and>
   (callApi ''/income-statement'' (statement_params input (mapPeriod (period input))) =
      Inr income \<and>
    callApi ''/balance-sheet-statement'' (statement_params input (mapPeriod (period input))) =
      Inr balance \<and>
    callApi ''/cash-flow-statement'' (statement_params input (mapPeriod (period input))) =
      Inr cashflow \<longrightarrow>
      snd (getAllFinancialStatements callApi input) =
        Inr (formatToolResult
               (JObj [(''income_statements'', api_data income),
                      (''balance_sheets'', api_data balance),
                      (''cash_flow_statements'', api_data cashflow)])
               [JStr (api_url income)]))"
  by (simp add: getAllFinancialStatements_def allStatements_calls_def statement_params_def
      Let_def)

theorem all_statements_witness:
  "example_api ''/income-statement''
     (statement_params example_input (mapPeriod (period example_input))) =
     Inr \<lparr>api_data = JStr ''/income-statement'', api_url = ''https://api/income-statement''\<rparr> \<and>
   snd (getAllFinancialStatements example_api example_input) =
     Inr (formatToolResult
            (JObj [(''income_statements'', JStr ''/income-statement''),
                   (''balance_sheets'', JStr ''/balance-sheet-statement''),
                   (''cash_flow_statements'', JStr ''/cash-flow-statement'')])
            [JStr ''https://api/income-statement''])"
  using all_statements [of example_api example_input
      "\<lparr>api_data = JStr ''/income-statement'', api_url = ''https://api/income-statement''\<rparr>"
      "\<lparr>api_data = JStr ''/balance-sheet-statement'',
        api_url = ''https://api/balance-sheet-statement''\<rparr>"
      "\<lparr>api_data = JStr ''/cash-flow-statement'', api_url = ''https://api/cash-flow-statement''\<rparr>"]
  by (simp add: example_api_def)

end
